theory Spec2Isabelle
  imports Complex_Main
begin

section \<open>JavaScript values and string helpers\<close>

text \<open>
  Strings are byte lists holding the UTF-8 encoding of the script's text; the Swedish
  letters and the bullet of the user-visible messages are written as their bytes.
\<close>

definition a_uml :: string where
  "a_uml = [CHR 0xC3, CHR 0xA4]"

definition bullet :: string where
  "bullet = [CHR 0xE2, CHR 0x80, CHR 0xA2]"

definition ellipsis :: string where
  "ellipsis = [CHR 0xE2, CHR 0x80, CHR 0xA6]"


definition approx_sign :: string where
  "approx_sign = [CHR 0xE2, CHR 0x89, CHR 0x88]"

text \<open>\<open>String(n)\<close> for a non-negative integer: its decimal digits.\<close>

definition digit_char :: "nat \<Rightarrow> char" where
  "digit_char d = ''0123456789'' ! d"

fun digits_onto :: "nat \<Rightarrow> string \<Rightarrow> string" where
  "digits_onto n acc =
     (if 10 \<le> n then digits_onto (n div 10) (digit_char (n mod 10) # acc)
      else digit_char n # acc)"

declare digits_onto.simps [simp del]

definition string_of_nat :: "nat \<Rightarrow> string" where
  "string_of_nat n = digits_onto n []"

definition string_of_int :: "int \<Rightarrow> string" where
  "string_of_int i = (if 0 \<le> i then string_of_nat (nat i) else CHR ''-'' # string_of_nat (nat (- i)))"

text \<open>
  White space removed by \<open>String.prototype.trim\<close> and skipped by \<open>parseInt\<close>: the
  ASCII white space and line terminators (the multi-byte Unicode spaces are left out).
\<close>

definition is_space :: "char \<Rightarrow> bool" where
  "is_space c = (c \<in> set [CHR '' '', CHR 0x09, CHR 0x0A, CHR 0x0B, CHR 0x0C, CHR 0x0D])"


definition is_digit :: "char \<Rightarrow> bool" where
  "is_digit c = (c \<in> set ''0123456789'')"

text \<open>The value of a decimal digit: its position among the ten digits.\<close>

definition digit_val :: "char \<Rightarrow> nat" where
  "digit_val c = length (takeWhile (\<lambda>d. d \<noteq> c) ''0123456789'')"

definition digits_val :: "string \<Rightarrow> nat" where
  "digits_val ds = foldl (\<lambda>acc c. 10 * acc + digit_val c) 0 ds"

text \<open>
  \<open>parseInt(s, 10)\<close>: skip leading white space, read an optional sign, then the longest
  run of decimal digits; no digit at all gives \<open>NaN\<close>, which is \<open>None\<close> here. The result
  is an unbounded integer: the rounding of integers beyond \<open>2^53\<close> to doubles is not
  modelled.
\<close>

definition parseInt :: "string \<Rightarrow> int option" where
  "parseInt s =
     (let t = dropWhile is_space s;
          neg = (t \<noteq> [] \<and> hd t = CHR ''-'');
          u = (if t \<noteq> [] \<and> (hd t = CHR ''-'' \<or> hd t = CHR ''+'') then tl t else t);
          ds = takeWhile is_digit u
      in if ds = [] then None
         else Some (if neg then - int (digits_val ds) else int (digits_val ds)))"

text \<open>The operator \<open>a || b\<close> on strings: the empty string and an absent value are falsy.\<close>

definition str_or :: "string option \<Rightarrow> string \<Rightarrow> string" where
  "str_or a b = (case a of None \<Rightarrow> b | Some s \<Rightarrow> if s = [] then b else s)"

text \<open>
  Numbers as the script sees them: \<open>NaN\<close>, the two infinities, or a finite value. Finite
  doubles are rationals; arithmetic on them is exact here, so the rounding error of
  double multiplication is not modelled.
\<close>

datatype jsnum = NaN | PosInf | NegInf | Fin rat

text \<open>
  A value whose structure the script does not look into: \<open>JObject\<close> stands for any
  object the code only tests with \<open>typeof\<close>, \<open>Array.isArray\<close> or for truthiness.
\<close>

datatype jsval = JUndefined | JNull | JBool bool | JNumber jsnum | JString string | JObject


section \<open>Preference store\<close>

text \<open>
  \<open>window.localStorage\<close> behind \<open>getStoredItem\<close> and \<open>setStoredItem\<close>. Reading fails
  when the storage object is missing or \<open>getItem\<close> throws; writing fails when it is
  missing or \<open>setItem\<close> throws. Both failures are swallowed by the script.
\<close>

record storage =
  readable :: bool
  writable :: bool
  items :: "string \<rightharpoonup> string"

definition key_model :: string where
  "key_model = ''ollama-webui:selected-model''"

definition key_ragEnabled :: string where
  "key_ragEnabled = ''ollama-webui:rag-enabled''"

definition key_ragTopK :: string where
  "key_ragTopK = ''ollama-webui:rag-top-k''"

definition getStoredItem :: "storage \<Rightarrow> string \<Rightarrow> string option" where
  "getStoredItem st k = (if readable st then items st k else None)"

definition setStoredItem :: "string \<Rightarrow> string \<Rightarrow> storage \<Rightarrow> storage" where
  "setStoredItem k v st = (if writable st then st\<lparr>items := (items st)(k \<mapsto> v)\<rparr> else st)"

section \<open>Network results\<close>

text \<open>
  What an awaited \<open>fetch\<close> followed by \<open>res.json()\<close> can deliver: the request is
  rejected with an error message, or a response arrives with a status and a body that
  fails to parse (with the parser's message), is the JSON value \<open>null\<close>, or is an object.
\<close>

datatype 'a json_result = BadJson string | JsonNull | Json 'a

datatype 'a fetch_result = Rejected string | Response nat "'a json_result"

definition ok :: "nat \<Rightarrow> bool" where
  "ok st = (200 \<le> st \<and> st \<le> 299)"

text \<open>
  The message of the \<open>TypeError\<close> raised by reading property \<open>p\<close> of \<open>null\<close>; the wording
  is the engine's.
\<close>

definition null_deref_msg :: "string \<Rightarrow> string" where
  "null_deref_msg p = ''Cannot read properties of null (reading '' @ [CHR 0x27] @ p @ [CHR 0x27] @ '')''"

definition http_msg :: "nat \<Rightarrow> string" where
  "http_msg st = ''HTTP '' @ string_of_nat st"

section \<open>Data delivered by the backend\<close>

datatype created_at = NoDate | InvalidDate | ValidDate string

record metadata =
  meta_type :: "string option"
  title :: "string option"
  url :: "string option"
  filename :: "string option"
  pages_used :: "nat option"
  total_pages :: "nat option"
  original_characters :: "nat option"
  truncated :: bool

record doc =
  doc_id :: "string option"
  preview :: "string option"
  chunks :: "nat option"
  created :: created_at
  meta :: "metadata option"

record rag_payload =
  documents :: "doc list option"
  chunk_count :: "nat option"
  embedding_model :: "string option"

record rag_item =
  item_text :: "string option"
  score :: jsval

text \<open>
  The argument of the retrieval display: an array of items, or any other value.
\<close>

datatype rag_context = ItemArray "rag_item list" | NotArray jsval


record chat_body =
  body_model :: string
  body_messages :: "(string \<times> string) list"
  body_temperature :: string
  body_use_rag :: bool
  body_rag_top_k :: "int option"

datatype request =
    GetModels
  | PostChat chat_body
  | GetRagDocs
  | PostRagDoc string
  | DeleteRagDoc "string"
  | DeleteRagDocs

section \<open>The page\<close>

record select_el =
  options :: "(string \<times> string) list"
  selectedIndex :: "nat option"

datatype severity = Info | Error | Success

record status_el =
  status_text :: string
  status_class :: severity

record toggle =
  checked :: bool
  disabled :: bool

record doc_li =
  li_preview :: string
  li_chunks :: string
  li_date :: "string option"
  li_source :: "string option"
  li_remove :: "string option"

record result_li =
  header :: string
  content :: string

record results_el =
  hidden :: bool
  ol :: "result_li list option"

datatype role = User | Assistant

text \<open>
  The state the scripts read and write: the preference store, the configured globals,
  the log of requests sent, and the elements of the page. An element that the scripts
  look up behind a guard is optional; \<open>model\<close>, \<open>prompt\<close>, \<open>temperature\<close>, \<open>send\<close>
  and \<open>history\<close> are dereferenced without one and are plain fields.
\<close>

record world =
  store :: storage
  DEFAULT_MODEL :: "string option"
  RAG_MAX_CHARS :: "nat option"
  requests :: "request list"
  model :: select_el
  prompt :: string
  temperature :: string
  send_disabled :: bool
  send_text :: string
  history :: "(role \<times> string) list"
  ttsToggle :: "bool option"
  lastAssistantText :: string
  spoken :: "string list"
  ragStatus :: "status_el option"
  ragList :: "doc_li list option"
  ragToggle :: "toggle option"
  ragModelName :: "string option"
  ragResults :: "results_el option"
  ragTopK :: "string option"
  ragInput :: "string option"
  ragSummaryText :: "string option"
  clearRag :: "bool option"

section \<open>Model selector\<close>





definition sel_value :: "select_el \<Rightarrow> string" where
  "sel_value sel =
     (case selectedIndex sel of
        None \<Rightarrow> []
      | Some i \<Rightarrow> if i < length (options sel) then fst (options sel ! i) else [])"








definition modelSelect_change :: "world \<Rightarrow> world" where
  "modelSelect_change w = w\<lparr>store := setStoredItem key_model (sel_value (model w)) (store w)\<rparr>"

section \<open>Retrieval display\<close>

fun js_min :: "jsnum \<Rightarrow> jsnum \<Rightarrow> jsnum" where
  "js_min NaN _ = NaN"
| "js_min _ NaN = NaN"
| "js_min NegInf _ = NegInf"
| "js_min _ NegInf = NegInf"
| "js_min PosInf b = b"
| "js_min a PosInf = a"
| "js_min (Fin a) (Fin b) = Fin (min a b)"

fun js_max :: "jsnum \<Rightarrow> jsnum \<Rightarrow> jsnum" where
  "js_max NaN _ = NaN"
| "js_max _ NaN = NaN"
| "js_max PosInf _ = PosInf"
| "js_max _ PosInf = PosInf"
| "js_max NegInf b = b"
| "js_max a NegInf = a"
| "js_max (Fin a) (Fin b) = Fin (max a b)"

text \<open>\<open>x * 1000\<close>, \<open>Math.round(x)\<close> and \<open>x / 10\<close>.\<close>

fun js_times_1000 :: "jsnum \<Rightarrow> jsnum" where
  "js_times_1000 (Fin q) = Fin (q * 1000)"
| "js_times_1000 x = x"

fun js_round :: "jsnum \<Rightarrow> jsnum" where
  "js_round (Fin q) = Fin (of_int (round q))"
| "js_round x = x"

fun js_div_10 :: "jsnum \<Rightarrow> jsnum" where
  "js_div_10 (Fin q) = Fin (q / 10)"
| "js_div_10 x = x"

text \<open>
  The text of a number in a template literal. A finite value is written with its sign,
  integer part and, unless it is zero, one fractional digit: this is what the script
  prints for the multiples of one tenth, the only finite values it ever formats.
\<close>

definition show_tenths :: "int \<Rightarrow> string" where
  "show_tenths k =
     (if k < 0 then ''-'' else []) @ string_of_nat (nat \<bar>k\<bar> div 10)
       @ (if nat \<bar>k\<bar> mod 10 = 0 then [] else ''.'' @ [digit_char (nat \<bar>k\<bar> mod 10)])"

fun number_to_string :: "jsnum \<Rightarrow> string" where
  "number_to_string NaN = ''NaN''"
| "number_to_string PosInf = ''Infinity''"
| "number_to_string NegInf = ''-Infinity''"
| "number_to_string (Fin q) = show_tenths \<lfloor>q * 10\<rfloor>"

definition percent_of :: "jsnum \<Rightarrow> jsnum" where
  "percent_of s =
     (let clamped = js_max (Fin (- 1)) (js_min (Fin 1) s)
      in js_div_10 (js_round (js_times_1000 clamped)))"

definition excerpt_label :: "nat \<Rightarrow> string" where
  "excerpt_label idx = ''Utdrag '' @ string_of_nat (idx + 1)"

definition similarity_suffix :: "jsnum \<Rightarrow> string" where
  "similarity_suffix s = '' '' @ bullet @ '' likhet '' @ number_to_string (percent_of s) @ ''%''"

definition render_item :: "nat \<Rightarrow> rag_item \<Rightarrow> result_li" where
  "render_item idx item =
     \<lparr>header = excerpt_label idx
         @ (case score item of
              JNumber n \<Rightarrow> if n \<noteq> NaN then similarity_suffix n else []
            | _ \<Rightarrow> []),
      content = str_or (item_text item) []\<rparr>"

fun render_from :: "nat \<Rightarrow> rag_item list \<Rightarrow> result_li list" where
  "render_from idx [] = []"
| "render_from idx (item # rest) = render_item idx item # render_from (Suc idx) rest"

definition renderRagResults :: "rag_context \<Rightarrow> world \<Rightarrow> world" where
  "renderRagResults ctx w =
     (case ragResults w of
        None \<Rightarrow> w
      | Some wrap \<Rightarrow>
          (case ol wrap of
             None \<Rightarrow> w
           | Some old \<Rightarrow>
               (case ctx of
                  ItemArray (item # rest) \<Rightarrow>
                    w\<lparr>ragResults :=
                        Some (wrap\<lparr>ol := Some (render_from 0 (item # rest)), hidden := False\<rparr>)\<rparr>
                | _ \<Rightarrow> w\<lparr>ragResults := Some (wrap\<lparr>ol := Some [], hidden := True\<rparr>)\<rparr>)))"

section \<open>Document registry: the chat page script\<close>

definition setRagStatus :: "string \<Rightarrow> severity \<Rightarrow> world \<Rightarrow> world" where
  "setRagStatus message type w =
     (case ragStatus w of
        None \<Rightarrow> w
      | Some el \<Rightarrow> w\<lparr>ragStatus := Some \<lparr>status_text = message, status_class = type\<rparr>\<rparr>)"

definition chunk_text :: "nat option \<Rightarrow> string" where
  "chunk_text c = string_of_nat (case c of None \<Rightarrow> 0 | Some n \<Rightarrow> n) @ '' utdrag''"

definition date_text :: "created_at \<Rightarrow> string option" where
  "date_text c = (case c of ValidDate shown \<Rightarrow> Some shown | _ \<Rightarrow> None)"

definition render_doc :: "doc \<Rightarrow> doc_li" where
  "render_doc d =
     \<lparr>li_preview = str_or (preview d) ''[Tom text]'',
      li_chunks = chunk_text (chunks d),
      li_date = date_text (created d),
      li_source = None,
      li_remove = doc_id d\<rparr>"

definition payload_docs :: "rag_payload option \<Rightarrow> doc list" where
  "payload_docs payload =
     (case payload of
        None \<Rightarrow> []
      | Some p \<Rightarrow> (case documents p of None \<Rightarrow> [] | Some ds \<Rightarrow> ds))"

definition payload_chunk_count :: "rag_payload option \<Rightarrow> nat" where
  "payload_chunk_count payload =
     (case payload of
        None \<Rightarrow> 0
      | Some p \<Rightarrow> (case chunk_count p of None \<Rightarrow> 0 | Some n \<Rightarrow> n))"

definition payload_model :: "rag_payload option \<Rightarrow> string option" where
  "payload_model payload =
     (case payload of
        None \<Rightarrow> None
      | Some p \<Rightarrow> (case embedding_model p of
                    None \<Rightarrow> None
                  | Some m \<Rightarrow> if m = [] then None else Some m))"

text \<open>
  The toggle block shared by \<open>renderRagDocs\<close> and \<open>renderRagSummary\<close>: the same lines
  in both scripts.
\<close>

definition reconcile_toggle :: "doc list \<Rightarrow> world \<Rightarrow> world" where
  "reconcile_toggle docs w =
     (case ragToggle w of
        None \<Rightarrow> w
      | Some toggleEl \<Rightarrow>
          if length docs = 0
          then w\<lparr>ragToggle := Some (toggleEl\<lparr>checked := False, disabled := True\<rparr>),
                 store := setStoredItem key_ragEnabled ''0'' (store w)\<rparr>
          else (case getStoredItem (store w) key_ragEnabled of
                  None \<Rightarrow> w\<lparr>ragToggle := Some (toggleEl\<lparr>disabled := False\<rparr>)\<rparr>
                | Some stored \<Rightarrow>
                    w\<lparr>ragToggle :=
                        Some (toggleEl\<lparr>disabled := False, checked := (stored = ''1'')\<rparr>)\<rparr>))"

definition renderRagDocs :: "rag_payload option \<Rightarrow> world \<Rightarrow> (nat \<times> nat) \<times> world" where
  "renderRagDocs payload w =
     (let docs = payload_docs payload;
          chunkCount = payload_chunk_count payload;
          w1 = (case (ragModelName w, payload_model payload) of
                  (Some old, Some m) \<Rightarrow> w\<lparr>ragModelName := Some m\<rparr>
                | _ \<Rightarrow> w);
          w2 = (case ragList w1 of
                  None \<Rightarrow> w1
                | Some old \<Rightarrow> w1\<lparr>ragList := Some (map render_doc docs)\<rparr>);
          w3 = reconcile_toggle docs w2
      in ((length docs, chunkCount), w3))"

record status_override =
  override_text :: string
  override_type :: "severity option"

definition msg_loading :: string where
  "msg_loading = ''H'' @ a_uml @ ''mtar kunskapsbas'' @ ellipsis"

definition msg_no_docs :: string where
  "msg_no_docs = ''Ingen text har lagts till '' @ a_uml @ ''nnu.''"

definition msg_summary :: "nat \<Rightarrow> nat \<Rightarrow> string" where
  "msg_summary count chunkCount =
     ''Texter: '' @ string_of_nat count @ '' '' @ bullet @ '' '' @ string_of_nat chunkCount
       @ '' utdrag.''"

definition msg_fetch_failed :: "string \<Rightarrow> string" where
  "msg_fetch_failed reason = ''Kunde inte h'' @ a_uml @ ''mta kunskapsbasen: '' @ reason"

definition fetchRagDocs_catch :: "string \<Rightarrow> world \<Rightarrow> world" where
  "fetchRagDocs_catch reason w =
     (let w1 = setRagStatus (msg_fetch_failed reason) Error w;
          w2 = w1\<lparr>ragList := Some []\<rparr>
      in case ragToggle w2 of
           None \<Rightarrow> w2
         | Some toggleEl \<Rightarrow> w2\<lparr>ragToggle := Some (toggleEl\<lparr>checked := False, disabled := True\<rparr>)\<rparr>)"

definition fetchRagDocs_ok :: "status_override option \<Rightarrow> rag_payload option \<Rightarrow> world \<Rightarrow> world" where
  "fetchRagDocs_ok statusOverride data w =
     (let (summary, w1) = renderRagDocs data w
      in if (case statusOverride of None \<Rightarrow> False | Some so \<Rightarrow> override_text so \<noteq> [])
         then (case statusOverride of
                 None \<Rightarrow> w1
               | Some so \<Rightarrow>
                   setRagStatus (override_text so)
                     (case override_type so of None \<Rightarrow> Info | Some t \<Rightarrow> t) w1)
         else if fst summary = 0 then setRagStatus msg_no_docs Info w1
         else setRagStatus (msg_summary (fst summary) (snd summary)) Info w1)"

text \<open>
  \<open>fetchRagDocs\<close> with the outcome of its one request as an argument. Nothing at all
  happens, and no request is sent, when the page has no document list.
\<close>

definition fetchRagDocs ::
  "status_override option \<Rightarrow> rag_payload fetch_result \<Rightarrow> world \<Rightarrow> world" where
  "fetchRagDocs statusOverride res w =
     (case ragList w of
        None \<Rightarrow> w
      | Some listEl \<Rightarrow>
          (let w1 = (if statusOverride = None then setRagStatus msg_loading Info w else w);
               w2 = w1\<lparr>requests := requests w1 @ [GetRagDocs]\<rparr>
           in case res of
                Rejected e \<Rightarrow> fetchRagDocs_catch e w2
              | Response st body \<Rightarrow>
                  if \<not> ok st then fetchRagDocs_catch (http_msg st) w2
                  else (case body of
                          BadJson e \<Rightarrow> fetchRagDocs_catch e w2
                        | JsonNull \<Rightarrow> fetchRagDocs_ok statusOverride None w2
                        | Json data \<Rightarrow> fetchRagDocs_ok statusOverride (Some data) w2)))"








section \<open>Chat session\<close>


text \<open>
  The normalisation applied to the parsed top-K value, in \<open>sendPrompt\<close> and in the change
  handler of the top-K input alike.
\<close>

definition clampTopK :: "int option \<Rightarrow> int" where
  "clampTopK parsed =
     (let v = (case parsed of None \<Rightarrow> 3 | Some n \<Rightarrow> if n < 1 then 3 else n)
      in if v > 10 then 10 else v)"








section \<open>Handlers installed when the chat page script loads\<close>

definition ragToggle_init :: "world \<Rightarrow> world" where
  "ragToggle_init w =
     (case ragToggle w of
        None \<Rightarrow> w
      | Some toggleEl \<Rightarrow>
          (case getStoredItem (store w) key_ragEnabled of
             None \<Rightarrow> w
           | Some stored \<Rightarrow> w\<lparr>ragToggle := Some (toggleEl\<lparr>checked := (stored = ''1'')\<rparr>)\<rparr>))"

definition ragToggle_change :: "world \<Rightarrow> world" where
  "ragToggle_change w =
     (case ragToggle w of
        None \<Rightarrow> w
      | Some toggleEl \<Rightarrow>
          w\<lparr>store := setStoredItem key_ragEnabled (if checked toggleEl then ''1'' else ''0'') (store w)\<rparr>)"

definition ragTopK_init :: "world \<Rightarrow> world" where
  "ragTopK_init w =
     (case ragTopK w of
        None \<Rightarrow> w
      | Some old \<Rightarrow>
          (case parseInt (str_or (getStoredItem (store w) key_ragTopK) []) of
             None \<Rightarrow> w
           | Some storedTopK \<Rightarrow>
               if storedTopK \<ge> 1
               then w\<lparr>ragTopK := Some (string_of_int (min 10 storedTopK))\<rparr>
               else w))"


section \<open>Knowledge-base summary: the later chat page script\<close>





section \<open>Document registry: the knowledge-base page script\<close>

text \<open>
  The functions of \<open>rag.js\<close> that share a name with one of the chat page script carry
  the prefix \<open>kb_\<close>.
\<close>

fun join_bullet :: "string list \<Rightarrow> string" where
  "join_bullet [] = []"
| "join_bullet [x] = x"
| "join_bullet (x # y # rest) = x @ '' '' @ bullet @ '' '' @ join_bullet (y # rest)"

definition nonzero :: "nat option \<Rightarrow> nat option" where
  "nonzero n = (case n of None \<Rightarrow> None | Some k \<Rightarrow> if k = 0 then None else Some k)"

definition describe_source :: "metadata \<Rightarrow> string list" where
  "describe_source m =
     (if meta_type m = Some ''url''
      then [case title m of
              None \<Rightarrow> ''Webbsida''
            | Some t \<Rightarrow> if t = [] then ''Webbsida'' else ''Webbsida: '' @ t]
           @ (case url m of None \<Rightarrow> [] | Some u \<Rightarrow> if u = [] then [] else [u])
      else if meta_type m = Some ''pdf''
      then [''PDF: '' @ str_or (filename m) ''PDF'']
           @ (case (nonzero (pages_used m), nonzero (total_pages m)) of
                (Some pu, Some tp) \<Rightarrow> [''Sidor '' @ string_of_nat pu @ ''/'' @ string_of_nat tp]
              | (None, Some tp) \<Rightarrow> [string_of_nat tp @ '' sidor'']
              | _ \<Rightarrow> [])
      else [''Manuell text''])"

definition describeMetadata :: "nat option \<Rightarrow> metadata option \<Rightarrow> string" where
  "describeMetadata max_chars md =
     (case md of
        None \<Rightarrow> []
      | Some m \<Rightarrow>
          (let limit = (case nonzero max_chars of None \<Rightarrow> 40000 | Some l \<Rightarrow> l);
               parts = describe_source m
                 @ (case nonzero (original_characters m) of
                      None \<Rightarrow> []
                    | Some n \<Rightarrow> [approx_sign @ '' '' @ string_of_nat n @ '' tecken f''
                                 @ [CHR 0xC3, CHR 0xB6] @ ''re delning''])
                 @ (if truncated m then [''Trunkerad till '' @ string_of_nat limit @ '' tecken''] else [])
           in join_bullet parts))"

definition updateSummary :: "nat \<Rightarrow> nat \<Rightarrow> world \<Rightarrow> world" where
  "updateSummary count chunkCount w =
     (case ragSummaryText w of
        None \<Rightarrow> w
      | Some old \<Rightarrow>
          if count = 0 then w\<lparr>ragSummaryText := Some msg_no_docs\<rparr>
          else w\<lparr>ragSummaryText := Some (msg_summary count chunkCount)\<rparr>)"

definition kb_render_doc :: "nat option \<Rightarrow> doc \<Rightarrow> doc_li" where
  "kb_render_doc max_chars d =
     \<lparr>li_preview = str_or (preview d) ''[Tom text]'',
      li_chunks = chunk_text (chunks d),
      li_date = date_text (created d),
      li_source = (let metaInfo = describeMetadata max_chars (meta d)
                   in if metaInfo = [] then None else Some metaInfo),
      li_remove = doc_id d\<rparr>"

definition kb_renderRagDocs :: "doc list option \<Rightarrow> nat option \<Rightarrow> world \<Rightarrow> (nat \<times> nat) \<times> world" where
  "kb_renderRagDocs docs stats_chunk_count w =
     (let safeDocs = (case docs of None \<Rightarrow> [] | Some ds \<Rightarrow> ds);
          chunkCount = (case stats_chunk_count of None \<Rightarrow> 0 | Some n \<Rightarrow> n);
          w1 = (case ragList w of
                  None \<Rightarrow> w
                | Some old \<Rightarrow> w\<lparr>ragList := Some (map (kb_render_doc (RAG_MAX_CHARS w)) safeDocs)\<rparr>);
          w2 = (case clearRag w1 of
                  None \<Rightarrow> w1
                | Some old \<Rightarrow> w1\<lparr>clearRag := Some (length safeDocs = 0)\<rparr>);
          w3 = updateSummary (length safeDocs) chunkCount w2
      in ((length safeDocs, chunkCount), w3))"

definition kb_fetchRagDocs_catch :: "string \<Rightarrow> world \<Rightarrow> world" where
  "kb_fetchRagDocs_catch reason w =
     (let w1 = setRagStatus (msg_fetch_failed reason) Error w;
          w2 = (case ragList w1 of None \<Rightarrow> w1 | Some old \<Rightarrow> w1\<lparr>ragList := Some []\<rparr>);
          w3 = updateSummary 0 0 w2
      in case clearRag w3 of
           None \<Rightarrow> w3
         | Some old \<Rightarrow> w3\<lparr>clearRag := Some True\<rparr>)"

definition kb_fetchRagDocs_ok :: "status_override option \<Rightarrow> rag_payload \<Rightarrow> world \<Rightarrow> world" where
  "kb_fetchRagDocs_ok statusOverride data w =
     (let (summary, w1) = kb_renderRagDocs (documents data) (chunk_count data) w;
          w2 = (case (payload_model (Some data), ragModelName w1) of
                  (Some m, Some old) \<Rightarrow> w1\<lparr>ragModelName := Some m\<rparr>
                | _ \<Rightarrow> w1)
      in if (case statusOverride of None \<Rightarrow> False | Some so \<Rightarrow> override_text so \<noteq> [])
         then (case statusOverride of
                 None \<Rightarrow> w2
               | Some so \<Rightarrow>
                   setRagStatus (override_text so)
                     (case override_type so of None \<Rightarrow> Info | Some t \<Rightarrow> t) w2)
         else if fst summary = 0 then setRagStatus msg_no_docs Info w2
         else setRagStatus (msg_summary (fst summary) (snd summary)) Info w2)"

definition kb_fetchRagDocs ::
  "status_override option \<Rightarrow> rag_payload fetch_result \<Rightarrow> world \<Rightarrow> world" where
  "kb_fetchRagDocs statusOverride res w =
     (let w1 = (if statusOverride = None then setRagStatus msg_loading Info w else w);
          w2 = w1\<lparr>requests := requests w1 @ [GetRagDocs]\<rparr>
      in case res of
           Rejected e \<Rightarrow> kb_fetchRagDocs_catch e w2
         | Response st body \<Rightarrow>
             if \<not> ok st then kb_fetchRagDocs_catch (http_msg st) w2
             else (case body of
                     BadJson e \<Rightarrow> kb_fetchRagDocs_catch e w2
                   | JsonNull \<Rightarrow> kb_fetchRagDocs_catch (null_deref_msg ''documents'') w2
                   | Json data \<Rightarrow> kb_fetchRagDocs_ok statusOverride data w2))"

section \<open>The toggle rule and list failures, as the specification words them\<close>

text \<open>
  The reconciliation rule of the specification: with no documents the toggle is disabled
  and forced off; otherwise it is enabled and its checked state is restored from the
  stored preference when there is one, and left as it is when there is none.
\<close>

definition toggle_rule :: "nat \<Rightarrow> string option \<Rightarrow> toggle \<Rightarrow> toggle" where
  "toggle_rule n stored t =
     (if n = 0 then \<lparr>checked = False, disabled = True\<rparr>
      else \<lparr>checked = (case stored of None \<Rightarrow> checked t | Some s \<Rightarrow> s = ''1''),
            disabled = False\<rparr>)"

text \<open>
  A step from page \<open>w\<close> to page \<open>w'\<close> reconciles the toggle with a snapshot of \<open>n\<close>
  documents: the toggle, where the page has one, is what the rule makes of it, and with
  no documents, a toggle on the page and a store that accepts writes, the stored
  preference is \<open>0\<close>.
\<close>

definition toggle_reconciled :: "nat \<Rightarrow> world \<Rightarrow> world \<Rightarrow> bool" where
  "toggle_reconciled n w w' =
     (ragToggle w' = map_option (toggle_rule n (getStoredItem (store w) key_ragEnabled)) (ragToggle w)
      \<and> (n = 0 \<and> ragToggle w \<noteq> None \<and> writable (store w)
            \<longrightarrow> items (store w') key_ragEnabled = Some ''0''))"

text \<open>
  A failed list request and its reason: the request is rejected, the response is not
  2xx, or the body of a 2xx response does not parse.
\<close>

definition failure_reason :: "'a fetch_result \<Rightarrow> string option" where
  "failure_reason res =
     (case res of
        Rejected e \<Rightarrow> Some e
      | Response st body \<Rightarrow>
          if \<not> ok st then Some (http_msg st)
          else (case body of BadJson e \<Rightarrow> Some e | _ \<Rightarrow> None))"

section \<open>A page to evaluate on\<close>

text \<open>
  The chat page as loaded, with every element present, a working store without
  entries, documents in the knowledge base and the retrieval toggle switched on.
\<close>

definition loaded_page :: world where
  "loaded_page =
     \<lparr>store = \<lparr>readable = True, writable = True, items = Map.empty\<rparr>,
      DEFAULT_MODEL = None, RAG_MAX_CHARS = None, requests = [],
      model = \<lparr>options = [], selectedIndex = None\<rparr>,
      prompt = [], temperature = ''0.7'', send_disabled = False, send_text = ''Skicka'',
      history = [], ttsToggle = Some False, lastAssistantText = [], spoken = [],
      ragStatus = Some \<lparr>status_text = [], status_class = Info\<rparr>,
      ragList = Some [],
      ragToggle = Some \<lparr>checked = True, disabled = False\<rparr>,
      ragModelName = Some [],
      ragResults = Some \<lparr>hidden = False, ol = Some []\<rparr>,
      ragTopK = Some ''3'', ragInput = Some [], ragSummaryText = Some [],
      clearRag = Some False\<rparr>"



section \<open>Sending a prompt\<close>

















lemma clampTopK_range: "1 \<le> clampTopK p \<and> clampTopK p \<le> 10"
  by (simp add: clampTopK_def Let_def split: option.splits)






section \<open>The top-K value\<close>






section \<open>The retrieval display\<close>

lemma length_render_from: "length (render_from n xs) = length xs"
  by (induction xs arbitrary: n) simp_all

lemma nth_render_from:
  "i < length xs \<Longrightarrow> render_from n xs ! i = render_item (n + i) (xs ! i)"
proof (induction xs arbitrary: n i)
  case Nil
  then show ?case by simp
next
  case (Cons x xs)
  then show ?case by (cases i) simp_all
qed

lemma render_hidden:
  assumes "ragResults w = Some wrap" and "ol wrap = Some old"
  shows "ragResults (renderRagResults (ItemArray []) w) = Some \<lparr>hidden = True, ol = Some []\<rparr>"
    and "ragResults (renderRagResults (NotArray v) w) = Some \<lparr>hidden = True, ol = Some []\<rparr>"
  using assms by (simp_all add: renderRagResults_def)

lemma render_shown:
  assumes "ragResults w = Some wrap" and "ol wrap = Some old" and "xs \<noteq> []"
  shows "ragResults (renderRagResults (ItemArray xs) w)
           = Some \<lparr>hidden = False, ol = Some (render_from 0 xs)\<rparr>"
  using assms by (cases xs) (simp_all add: renderRagResults_def)

lemma render_not_array: "renderRagResults (NotArray v) w = renderRagResults (ItemArray []) w"
  by (simp add: renderRagResults_def split: option.splits)

lemma region_kept:
  "ragResults w = Some wrap \<Longrightarrow> ol wrap = Some old \<Longrightarrow>
     \<exists>wrap' old'. ragResults (renderRagResults c w) = Some wrap' \<and> ol wrap' = Some old'"
  by (simp add: renderRagResults_def split: rag_context.splits list.splits)








lemma loaded_region:
  "ragResults loaded_page = Some \<lparr>hidden = False, ol = Some []\<rparr>"
  "ol \<lparr>hidden = False, ol = Some []\<rparr> = Some []"
  by (simp_all add: loaded_page_def)

lemma excerpt_label_0: "excerpt_label 0 = ''Utdrag 1''"
  by (simp add: excerpt_label_def string_of_nat_def digits_onto.simps digit_char_def)



lemma show_minus_100: "number_to_string (percent_of (Fin (- 2))) = ''-100''"
  by code_simp




text \<open>
  Claim C6. On a page that has the results region and its list: rendering the empty
  array or \<open>undefined\<close> empties the list and hides the region; rendering a non-empty array
  shows the region with one entry per item, in order, the entry at index \<open>i\<close> labelled
  \<open>Utdrag\<close> \<open>i + 1\<close>, with nothing after the label when the score is not a number, and with
  the item's text (or the empty text) as content; and what was rendered before has no
  influence on the result.
\<close>

theorem render_hides_or_lists:
  assumes "ragResults w = Some wrap" and "ol wrap = Some old"
  shows "ragResults (renderRagResults (ItemArray []) w) = Some \<lparr>hidden = True, ol = Some []\<rparr>
     \<and> ragResults (renderRagResults (NotArray JUndefined) w) = Some \<lparr>hidden = True, ol = Some []\<rparr>
     \<and> (xs \<noteq> [] \<longrightarrow>
          (\<exists>lis. ragResults (renderRagResults (ItemArray xs) w)
                    = Some \<lparr>hidden = False, ol = Some lis\<rparr>
             \<and> length lis = length xs
             \<and> (\<forall>i < length xs.
                   take (length (excerpt_label i)) (header (lis ! i)) = excerpt_label i
                   \<and> excerpt_label i = ''Utdrag '' @ string_of_nat (i + 1)
                   \<and> ((\<forall>n. score (xs ! i) \<noteq> JNumber n) \<longrightarrow> header (lis ! i) = excerpt_label i)
                   \<and> content (lis ! i) = str_or (item_text (xs ! i)) [])))
     \<and> ragResults (renderRagResults c (renderRagResults c' w)) = ragResults (renderRagResults c w)"
proof -
  have hide: "ragResults (renderRagResults (ItemArray []) w) = Some \<lparr>hidden = True, ol = Some []\<rparr>"
    "ragResults (renderRagResults (NotArray JUndefined) w) = Some \<lparr>hidden = True, ol = Some []\<rparr>"
    by (rule render_hidden [OF assms])+
  have list: "xs \<noteq> [] \<longrightarrow>
          (\<exists>lis. ragResults (renderRagResults (ItemArray xs) w)
                    = Some \<lparr>hidden = False, ol = Some lis\<rparr>
             \<and> length lis = length xs
             \<and> (\<forall>i < length xs.
                   take (length (excerpt_label i)) (header (lis ! i)) = excerpt_label i
                   \<and> excerpt_label i = ''Utdrag '' @ string_of_nat (i + 1)
                   \<and> ((\<forall>n. score (xs ! i) \<noteq> JNumber n) \<longrightarrow> header (lis ! i) = excerpt_label i)
                   \<and> content (lis ! i) = str_or (item_text (xs ! i)) []))"
  proof
    assume ne: "xs \<noteq> []"
    have per_item: "\<forall>i < length xs.
                   take (length (excerpt_label i)) (header (render_from 0 xs ! i)) = excerpt_label i
                   \<and> excerpt_label i = ''Utdrag '' @ string_of_nat (i + 1)
                   \<and> ((\<forall>n. score (xs ! i) \<noteq> JNumber n) \<longrightarrow> header (render_from 0 xs ! i) = excerpt_label i)
                   \<and> content (render_from 0 xs ! i) = str_or (item_text (xs ! i)) []"
    proof (intro allI impI)
      fix i assume i: "i < length xs"
      have item: "render_from 0 xs ! i = render_item i (xs ! i)"
        using nth_render_from [OF i, of 0] by simp
      show "take (length (excerpt_label i)) (header (render_from 0 xs ! i)) = excerpt_label i
                   \<and> excerpt_label i = ''Utdrag '' @ string_of_nat (i + 1)
                   \<and> ((\<forall>n. score (xs ! i) \<noteq> JNumber n) \<longrightarrow> header (render_from 0 xs ! i) = excerpt_label i)
                   \<and> content (render_from 0 xs ! i) = str_or (item_text (xs ! i)) []"
        unfolding item
        by (cases "score (xs ! i)") (simp_all add: render_item_def excerpt_label_def)
    qed
    with render_shown [OF assms ne] length_render_from [of 0 xs]
    show "\<exists>lis. ragResults (renderRagResults (ItemArray xs) w)
                    = Some \<lparr>hidden = False, ol = Some lis\<rparr>
             \<and> length lis = length xs
             \<and> (\<forall>i < length xs.
                   take (length (excerpt_label i)) (header (lis ! i)) = excerpt_label i
                   \<and> excerpt_label i = ''Utdrag '' @ string_of_nat (i + 1)
                   \<and> ((\<forall>n. score (xs ! i) \<noteq> JNumber n) \<longrightarrow> header (lis ! i) = excerpt_label i)
                   \<and> content (lis ! i) = str_or (item_text (xs ! i)) [])"
      by blast
  qed
  have again: "ragResults (renderRagResults c (renderRagResults c' w)) = ragResults (renderRagResults c w)"
    using assms by (simp add: renderRagResults_def split: rag_context.splits list.splits)
  from hide list again show ?thesis by blast
qed


theorem render_hides_or_lists_witness:
  "ragResults loaded_page = Some \<lparr>hidden = False, ol = Some []\<rparr> \<and>
   ragResults (renderRagResults (ItemArray []) loaded_page) = Some \<lparr>hidden = True, ol = Some []\<rparr> \<and>
   ragResults (renderRagResults (NotArray JUndefined) loaded_page)
     = Some \<lparr>hidden = True, ol = Some []\<rparr> \<and>
   (\<exists>lis. ragResults (renderRagResults
              (ItemArray [\<lparr>item_text = Some ''a'', score = JUndefined\<rparr>]) loaded_page)
            = Some \<lparr>hidden = False, ol = Some lis\<rparr>
      \<and> length lis = 1 \<and> header (lis ! 0) = ''Utdrag 1'' \<and> content (lis ! 0) = ''a'')"
proof -
  let ?xs = "[\<lparr>item_text = Some ''a'', score = JUndefined\<rparr>]"
  note all = render_hides_or_lists [OF loaded_region, of ?xs]
  from all obtain lis where
    shown: "ragResults (renderRagResults (ItemArray ?xs) loaded_page)
              = Some \<lparr>hidden = False, ol = Some lis\<rparr>"
    and len: "length lis = length ?xs"
    and each: "\<forall>i < length ?xs.
                   take (length (excerpt_label i)) (header (lis ! i)) = excerpt_label i
                   \<and> excerpt_label i = ''Utdrag '' @ string_of_nat (i + 1)
                   \<and> ((\<forall>n. score (?xs ! i) \<noteq> JNumber n) \<longrightarrow> header (lis ! i) = excerpt_label i)
                   \<and> content (lis ! i) = str_or (item_text (?xs ! i)) []"
    by blast
  from each have "header (lis ! 0) = excerpt_label 0 \<and> content (lis ! 0) = ''a''"
    by (simp add: str_or_def)
  with shown len all loaded_region(1) show ?thesis
    by (auto simp add: excerpt_label_0)
qed

text \<open>
  Claim C10. For every argument that is not an array the retrieval display does exactly
  what it does for the empty array, on every page; where the region and its list exist
  the list is emptied and the region hidden. The function is total: none of its
  statements can raise on such an argument.
\<close>

theorem render_non_array_as_empty:
  "renderRagResults (NotArray v) w = renderRagResults (ItemArray []) w
   \<and> (ragResults w = Some wrap \<and> ol wrap = Some old \<longrightarrow>
        ragResults (renderRagResults (NotArray v) w) = Some \<lparr>hidden = True, ol = Some []\<rparr>)"
  by (auto simp add: render_not_array render_hidden)

theorem render_non_array_as_empty_witness:
  "ragResults loaded_page = Some \<lparr>hidden = False, ol = Some []\<rparr> \<and>
   renderRagResults (NotArray (JString ''abc'')) loaded_page
     = renderRagResults (ItemArray []) loaded_page \<and>
   ragResults (renderRagResults (NotArray (JString ''abc'')) loaded_page)
     = Some \<lparr>hidden = True, ol = Some []\<rparr>"
  using render_non_array_as_empty
     [of "JString ''abc''" loaded_page "\<lparr>hidden = False, ol = Some []\<rparr>" "[]"] loaded_region
  by (simp add: render_hidden [OF loaded_region])

section \<open>The model selector\<close>













section \<open>The retrieval toggle\<close>

lemma setRagStatus_frame:
  "ragToggle (setRagStatus m t w) = ragToggle w"
  "store (setRagStatus m t w) = store w"
  "ragList (setRagStatus m t w) = ragList w"
  "clearRag (setRagStatus m t w) = clearRag w"
  "ragSummaryText (setRagStatus m t w) = ragSummaryText w"
  "ragInput (setRagStatus m t w) = ragInput w"
  by (simp_all add: setRagStatus_def split: option.splits)

lemma setRagStatus_status:
  "ragStatus w \<noteq> None \<Longrightarrow>
     ragStatus (setRagStatus m t w) = Some \<lparr>status_text = m, status_class = t\<rparr>"
  by (auto simp add: setRagStatus_def)

lemma toggle_reconciled_cong:
  assumes "ragToggle a = ragToggle w" and "store a = store w"
    and "ragToggle b = ragToggle w'" and "store b = store w'"
  shows "toggle_reconciled n a b = toggle_reconciled n w w'"
  using assms by (simp add: toggle_reconciled_def)


















section \<open>Failure of the list request\<close>

lemma fetchRagDocs_failed:
  assumes "failure_reason res = Some reason" and "ragList w \<noteq> None"
  shows "fetchRagDocs so res w
           = fetchRagDocs_catch reason
               ((if so = None then setRagStatus msg_loading Info w else w)
                  \<lparr>requests := requests (if so = None then setRagStatus msg_loading Info w else w)
                      @ [GetRagDocs]\<rparr>)"
  using assms
  by (auto simp add: fetchRagDocs_def failure_reason_def Let_def
        split: fetch_result.splits json_result.splits if_splits)

lemma kb_fetchRagDocs_failed:
  assumes "failure_reason res = Some reason"
  shows "kb_fetchRagDocs so res w
           = kb_fetchRagDocs_catch reason
               ((if so = None then setRagStatus msg_loading Info w else w)
                  \<lparr>requests := requests (if so = None then setRagStatus msg_loading Info w else w)
                      @ [GetRagDocs]\<rparr>)"
  using assms
  by (auto simp add: kb_fetchRagDocs_def failure_reason_def Let_def
        split: fetch_result.splits json_result.splits if_splits)

lemma setRagStatus_status_map:
  "ragStatus (setRagStatus m t w)
     = map_option (\<lambda>el. \<lparr>status_text = m, status_class = t\<rparr>) (ragStatus w)"
  by (simp add: setRagStatus_def split: option.splits)

lemma fetchRagDocs_catch_effect:
  "ragList (fetchRagDocs_catch reason w) = Some []"
  "ragToggle (fetchRagDocs_catch reason w)
     = map_option (\<lambda>t. t\<lparr>checked := False, disabled := True\<rparr>) (ragToggle w)"
  "store (fetchRagDocs_catch reason w) = store w"
  "ragStatus (fetchRagDocs_catch reason w)
     = map_option (\<lambda>el. \<lparr>status_text = msg_fetch_failed reason, status_class = Error\<rparr>) (ragStatus w)"
  by (auto simp add: fetchRagDocs_catch_def Let_def setRagStatus_def split: option.splits)

lemma kb_fetchRagDocs_catch_effect:
  "ragList (kb_fetchRagDocs_catch reason w) = map_option (\<lambda>l. []) (ragList w)"
  "ragToggle (kb_fetchRagDocs_catch reason w) = ragToggle w"
  "store (kb_fetchRagDocs_catch reason w) = store w"
  "clearRag (kb_fetchRagDocs_catch reason w) = map_option (\<lambda>b. True) (clearRag w)"
  "ragSummaryText (kb_fetchRagDocs_catch reason w) = map_option (\<lambda>s. msg_no_docs) (ragSummaryText w)"
  "ragStatus (kb_fetchRagDocs_catch reason w)
     = map_option (\<lambda>el. \<lparr>status_text = msg_fetch_failed reason, status_class = Error\<rparr>) (ragStatus w)"
  by (auto simp add: kb_fetchRagDocs_catch_def Let_def setRagStatus_def updateSummary_def
        split: option.splits)

lemma failure_reason_cases:
  assumes "failure_reason res = Some reason"
  shows "(\<forall>e. res = Rejected e \<longrightarrow> reason = e)
       \<and> (\<forall>st body. res = Response st body \<and> \<not> ok st \<longrightarrow> reason = ''HTTP '' @ string_of_nat st)"
  using assms by (auto simp add: failure_reason_def http_msg_def split: fetch_result.splits)


lemma http_500: "http_msg 500 = ''HTTP 500''"
  by (simp add: http_msg_def string_of_nat_def digits_onto.simps digit_char_def)

lemma not_ok_500: "\<not> ok 500"
  by (simp add: ok_def)

lemma failure_500: "failure_reason (Response 500 (BadJson e)) = Some ''HTTP 500''"
  by (simp add: failure_reason_def not_ok_500 http_500)

text \<open>
  Claim C7, as the claim states it, fails for the list operation of the knowledge-base
  page script: a list request answered with status 500, on a page whose toggle is
  enabled and checked, surfaces the error status and leaves the toggle enabled and
  checked.
\<close>

theorem kb_list_failure_leaves_toggle:
  "\<not> ok 500
   \<and> ragToggle loaded_page = Some \<lparr>checked = True, disabled = False\<rparr>
   \<and> ragStatus (kb_fetchRagDocs None (Response 500 (BadJson ''Unexpected token'')) loaded_page)
        = Some \<lparr>status_text = msg_fetch_failed ''HTTP 500'', status_class = Error\<rparr>
   \<and> ragToggle (kb_fetchRagDocs None (Response 500 (BadJson ''Unexpected token'')) loaded_page)
        = Some \<lparr>checked = True, disabled = False\<rparr>"
  by (simp add: kb_fetchRagDocs_failed [OF failure_500] kb_fetchRagDocs_catch_effect
        setRagStatus_status_map option.map_comp comp_def loaded_page_def setRagStatus_frame not_ok_500)

text \<open>
  Claim C7, amended. Let a list request fail with a reason: it is rejected, answered
  with a status outside 2xx (the reason is then \<open>HTTP\<close> and the status), or answered
  with a body that does not parse. Both list operations then put an error status on the
  page whose text ends with the reason, and empty the rendered list. The one of the chat
  page script, which runs only on a page with a document list, also disables the toggle
  and unchecks it. The one of the knowledge-base page script leaves the toggle as it
  is; it resets the summary text and disables the clear button instead. Neither can
  raise: every failure is a branch that returns a page.
\<close>

theorem list_failure_handling:
  assumes "failure_reason res = Some reason"
  shows "(ragList w \<noteq> None \<longrightarrow>
            ragList (fetchRagDocs so res w) = Some []
          \<and> ragToggle (fetchRagDocs so res w)
              = map_option (\<lambda>t. t\<lparr>checked := False, disabled := True\<rparr>) (ragToggle w)
          \<and> ragStatus (fetchRagDocs so res w)
              = map_option (\<lambda>el. \<lparr>status_text = msg_fetch_failed reason, status_class = Error\<rparr>)
                  (ragStatus w))
       \<and> ragList (kb_fetchRagDocs so res w) = map_option (\<lambda>l. []) (ragList w)
       \<and> ragToggle (kb_fetchRagDocs so res w) = ragToggle w
       \<and> clearRag (kb_fetchRagDocs so res w) = map_option (\<lambda>b. True) (clearRag w)
       \<and> ragSummaryText (kb_fetchRagDocs so res w)
           = map_option (\<lambda>s. msg_no_docs) (ragSummaryText w)
       \<and> ragStatus (kb_fetchRagDocs so res w)
           = map_option (\<lambda>el. \<lparr>status_text = msg_fetch_failed reason, status_class = Error\<rparr>)
               (ragStatus w)
       \<and> (\<exists>pre. msg_fetch_failed reason = pre @ reason)
       \<and> (\<forall>e. res = Rejected e \<longrightarrow> reason = e)
       \<and> (\<forall>st body. res = Response st body \<and> \<not> ok st \<longrightarrow> reason = ''HTTP '' @ string_of_nat st)"
proof -
  have chat: "ragList w \<noteq> None \<longrightarrow>
            ragList (fetchRagDocs so res w) = Some []
          \<and> ragToggle (fetchRagDocs so res w)
              = map_option (\<lambda>t. t\<lparr>checked := False, disabled := True\<rparr>) (ragToggle w)
          \<and> ragStatus (fetchRagDocs so res w)
              = map_option (\<lambda>el. \<lparr>status_text = msg_fetch_failed reason, status_class = Error\<rparr>)
                  (ragStatus w)"
    by (simp add: fetchRagDocs_failed [OF assms] fetchRagDocs_catch_effect
          setRagStatus_status_map option.map_comp comp_def setRagStatus_frame)
  have kb: "ragList (kb_fetchRagDocs so res w) = map_option (\<lambda>l. []) (ragList w)"
    "ragToggle (kb_fetchRagDocs so res w) = ragToggle w"
    "clearRag (kb_fetchRagDocs so res w) = map_option (\<lambda>b. True) (clearRag w)"
    "ragSummaryText (kb_fetchRagDocs so res w) = map_option (\<lambda>s. msg_no_docs) (ragSummaryText w)"
    "ragStatus (kb_fetchRagDocs so res w)
           = map_option (\<lambda>el. \<lparr>status_text = msg_fetch_failed reason, status_class = Error\<rparr>)
               (ragStatus w)"
    by (simp_all add: kb_fetchRagDocs_failed [OF assms] kb_fetchRagDocs_catch_effect
          setRagStatus_status_map option.map_comp comp_def setRagStatus_frame)
  have reason_shown: "\<exists>pre. msg_fetch_failed reason = pre @ reason"
    unfolding msg_fetch_failed_def by (rule exI [of _ "''Kunde inte h'' @ a_uml @ ''mta kunskapsbasen: ''"]) simp
  show ?thesis
    using chat kb reason_shown failure_reason_cases [OF assms, THEN conjunct1]
      failure_reason_cases [OF assms, THEN conjunct2]
    by (intro conjI)
qed

theorem list_failure_handling_witness:
  "failure_reason (Response 500 (BadJson ''Unexpected token'')) = Some ''HTTP 500''
   \<and> ragList loaded_page \<noteq> None \<and> ragStatus loaded_page \<noteq> None
   \<and> ragToggle loaded_page = Some \<lparr>checked = True, disabled = False\<rparr>
   \<and> ragList (fetchRagDocs None (Response 500 (BadJson ''Unexpected token'')) loaded_page) = Some []
   \<and> ragToggle (fetchRagDocs None (Response 500 (BadJson ''Unexpected token'')) loaded_page)
        = Some \<lparr>checked = False, disabled = True\<rparr>
   \<and> ragStatus (fetchRagDocs None (Response 500 (BadJson ''Unexpected token'')) loaded_page)
        = Some \<lparr>status_text = msg_fetch_failed ''HTTP 500'', status_class = Error\<rparr>"
  using list_failure_handling [OF failure_500, of loaded_page None "''Unexpected token''"]
    failure_500 [of "''Unexpected token''"]
  by (simp add: loaded_page_def)

end
